theory Spec2Isabelle
  imports Main "HOL-Library.Finite_Map" "HOL-Library.Multiset"
begin

section \<open>Go strings\<close>

text \<open>
  A Go string is a sequence of bytes, here a \<open>char list\<close>. The provider calls four
  functions of package \<open>strings\<close>: \<open>Split\<close> (always with a one-byte separator),
  \<open>HasPrefix\<close>, \<open>Trim\<close> (with the ASCII cutset \<open>"()"\<close>) and \<open>TrimSpace\<close>.
\<close>

text \<open>
  \<open>strings.Split(s, sep)\<close> for a one-byte separator: the pieces between the separators,
  in order; a string without the separator (the empty string too) gives one piece.
\<close>

fun Split :: "string \<Rightarrow> char \<Rightarrow> string list" where
  "Split [] sep = [[]]"
| "Split (c # cs) sep =
     (if c = sep then [] # Split cs sep
      else (case Split cs sep of
              [] \<Rightarrow> [[c]]
            | p # ps \<Rightarrow> (c # p) # ps))"

definition HasPrefix :: "string \<Rightarrow> string \<Rightarrow> bool" where
  "HasPrefix s pre = (take (length pre) s = pre)"

text \<open>
  \<open>strings.Trim(s, cutset)\<close> removes every leading and every trailing byte that occurs in
  the cutset (for an ASCII cutset Go works byte by byte).
\<close>

definition Trim :: "string \<Rightarrow> string \<Rightarrow> string" where
  "Trim s cutset =
     rev (dropWhile (\<lambda>c. c \<in> set cutset) (rev (dropWhile (\<lambda>c. c \<in> set cutset) s)))"

text \<open>
  \<open>strings.TrimSpace\<close> removes the leading and trailing white space runes, as
  \<open>unicode.IsSpace\<close> defines them. \<open>spaceRunes\<close> lists their UTF-8 encodings: tab, line feed,
  vertical tab, form feed, carriage return, space, U+0085, U+00A0, U+1680,
  U+2000 to U+200A, U+2028, U+2029, U+202F, U+205F and U+3000. A byte sequence that is
  no valid encoding decodes to the error rune, which is no space.
\<close>

definition spaceRunes :: "string list" where
  "spaceRunes =
     [[CHR 0x09], [CHR 0x0A], [CHR 0x0B], [CHR 0x0C], [CHR 0x0D], [CHR 0x20],
      [CHR 0xC2, CHR 0x85], [CHR 0xC2, CHR 0xA0],
      [CHR 0xE1, CHR 0x9A, CHR 0x80],
      [CHR 0xE2, CHR 0x80, CHR 0x80], [CHR 0xE2, CHR 0x80, CHR 0x81],
      [CHR 0xE2, CHR 0x80, CHR 0x82], [CHR 0xE2, CHR 0x80, CHR 0x83],
      [CHR 0xE2, CHR 0x80, CHR 0x84], [CHR 0xE2, CHR 0x80, CHR 0x85],
      [CHR 0xE2, CHR 0x80, CHR 0x86], [CHR 0xE2, CHR 0x80, CHR 0x87],
      [CHR 0xE2, CHR 0x80, CHR 0x88], [CHR 0xE2, CHR 0x80, CHR 0x89],
      [CHR 0xE2, CHR 0x80, CHR 0x8A],
      [CHR 0xE2, CHR 0x80, CHR 0xA8], [CHR 0xE2, CHR 0x80, CHR 0xA9],
      [CHR 0xE2, CHR 0x80, CHR 0xAF],
      [CHR 0xE2, CHR 0x81, CHR 0x9F],
      [CHR 0xE3, CHR 0x80, CHR 0x80]]"

text \<open>The width in bytes of the first of the given encodings the string starts with; 0 if none.\<close>

fun runeWidth :: "string list \<Rightarrow> string \<Rightarrow> nat" where
  "runeWidth [] s = 0"
| "runeWidth (w # ws) s = (if take (length w) s = w then length w else runeWidth ws s)"

function trimLeftRunes :: "string list \<Rightarrow> string \<Rightarrow> string" where
  "trimLeftRunes ws s =
     (if s = [] \<or> runeWidth ws s = 0 then s
      else trimLeftRunes ws (drop (runeWidth ws s) s))"
  by pat_completeness auto
termination
  by (relation "measure (\<lambda>(ws, s). length s)") auto

declare trimLeftRunes.simps [simp del]

text \<open>
  The trailing runes are decoded from the end of the string: a white space rune ends the
  string exactly when the reversed string starts with its reversed encoding.
\<close>

definition TrimSpace :: "string \<Rightarrow> string" where
  "TrimSpace s =
     rev (trimLeftRunes (map rev spaceRunes) (rev (trimLeftRunes spaceRunes s)))"

section \<open>The resource model\<close>

text \<open>
  \<open>types.String\<close> of the plugin framework is null, unknown or a known string;
  \<open>ValueString\<close> gives the empty string for the first two.
\<close>

datatype tfstring = StringNull | StringUnknown | StringValue string

fun IsNull :: "tfstring \<Rightarrow> bool" where
  "IsNull StringNull = True"
| "IsNull StringUnknown = False"
| "IsNull (StringValue v) = False"

fun IsUnknown :: "tfstring \<Rightarrow> bool" where
  "IsUnknown StringNull = False"
| "IsUnknown StringUnknown = True"
| "IsUnknown (StringValue v) = False"

fun ValueString :: "tfstring \<Rightarrow> string" where
  "ValueString StringNull = []"
| "ValueString StringUnknown = []"
| "ValueString (StringValue v) = v"

text \<open>
  The three structs of the provider have fields of the same names; the fields of
  \<open>ColumnModel\<close> carry the prefix \<open>col_\<close> and those of \<open>ColumnInfo\<close> the prefix \<open>info_\<close>.
\<close>

record ColumnModel =
  col_Name :: tfstring
  col_Type :: tfstring
  col_Comment :: tfstring

record TableResourceModel =
  ID :: tfstring
  Name :: tfstring
  Database :: tfstring
  Engine :: tfstring
  Columns :: "ColumnModel list"
  OrderBy :: "tfstring list"

record ColumnInfo =
  info_Name :: string
  info_Type :: string
  info_Comment :: string

section \<open>generateCreateTableSQL\<close>

definition newline :: char where
  "newline = CHR 0x0A"

definition quote :: char where
  "quote = CHR 0x27"

text \<open>
  The loop over \<open>data.Columns\<close>: \<open>i\<close> is the index of the next column and \<open>sql\<close> the
  statement built so far.
\<close>

fun columnsSQL :: "nat \<Rightarrow> ColumnModel list \<Rightarrow> string \<Rightarrow> string" where
  "columnsSQL i [] sql = sql"
| "columnsSQL i (col # rest) sql =
     (let sql1 = (if i > 0 then sql @ [CHR '','', newline] else sql);
          sql2 = sql1 @ ''    '' @ ValueString (col_Name col) @ '' '' @ ValueString (col_Type col);
          sql3 = (if \<not> IsNull (col_Comment col) \<and> \<not> IsUnknown (col_Comment col)
                  then sql2 @ '' COMMENT '' @ [quote] @ ValueString (col_Comment col) @ [quote]
                  else sql2)
      in columnsSQL (i + 1) rest sql3)"

text \<open>The loop over \<open>data.OrderBy\<close>.\<close>

fun orderBySQL :: "nat \<Rightarrow> tfstring list \<Rightarrow> string \<Rightarrow> string" where
  "orderBySQL i [] sql = sql"
| "orderBySQL i (orderCol # rest) sql =
     orderBySQL (i + 1) rest ((if i > 0 then sql @ '', '' else sql) @ ValueString orderCol)"

definition generateCreateTableSQL :: "TableResourceModel \<Rightarrow> string" where
  "generateCreateTableSQL data =
     (let sql = ''CREATE TABLE '' @ ValueString (Database data) @ ''.'' @
                ValueString (Name data) @ '' ('' @ [newline];
          sql = columnsSQL 0 (Columns data) sql;
          sql = sql @ [newline] @ '') ENGINE = '' @ ValueString (Engine data)
      in if length (OrderBy data) > 0
         then orderBySQL 0 (OrderBy data) (sql @ [newline] @ ''ORDER BY ('') @ '')''
         else sql)"

section \<open>The database\<close>

text \<open>
  The provider reaches ClickHouse through \<open>database/sql\<close>. Every operation issues each of
  its statements at most once, so the database is modelled by the answer it gives to each
  statement: \<open>ExecContext\<close> answers a DDL statement with an error or with none;
  the single-row queries answer with \<open>sql.ErrNoRows\<close>, another error or the scanned value
  (a \<open>sql.NullString\<close> is a \<open>string option\<close>); the query on \<open>system.columns\<close> answers with
  an error (of the query, of a \<open>Scan\<close> or of the iteration) or with its rows
  \<open>(name, type, comment)\<close> in the order of \<open>ORDER BY position\<close>. Errors are their messages.
\<close>

datatype 'a row_result = ErrNoRows | RowError string | Row 'a

type_synonym column_row = "string \<times> string \<times> string option"

record database =
  ExecContext :: "string \<Rightarrow> string option"
  QueryRow_engine :: "string \<Rightarrow> string \<Rightarrow> string row_result"
  Query_columns :: "string \<Rightarrow> string \<Rightarrow> string + column_row list"
  QueryRow_sorting_key :: "string \<Rightarrow> string \<Rightarrow> string option row_result"

text \<open>The statements an operation has sent, in order.\<close>

datatype db_call =
    Exec string
  | QueryEngine string string
  | QueryColumns string string
  | QuerySortingKey string string

section \<open>Reading the live table\<close>

text \<open>\<open>comment.String\<close> of a \<open>sql.NullString\<close>: the empty string for NULL.\<close>

fun NullString_String :: "string option \<Rightarrow> string" where
  "NullString_String None = []"
| "NullString_String (Some v) = v"

text \<open>
  The \<open>rows.Next()\<close> loop of \<open>getTableColumns\<close>: each row is stored in the Go map under
  its name. A Go map is a finite map; \<open>len\<close> is the number of its keys.
\<close>

fun scanRows :: "column_row list \<Rightarrow> (string, ColumnInfo) fmap \<Rightarrow> (string, ColumnInfo) fmap" where
  "scanRows [] columns = columns"
| "scanRows ((name, colType, comment) # rows) columns =
     scanRows rows
       (fmupd name \<lparr>info_Name = name, info_Type = colType,
                    info_Comment = NullString_String comment\<rparr> columns)"

definition getTableColumns ::
  "database \<Rightarrow> string \<Rightarrow> string \<Rightarrow> string + (string, ColumnInfo) fmap" where
  "getTableColumns db database tableName =
     (case Query_columns db database tableName of
        Inl err \<Rightarrow> Inl err
      | Inr rows \<Rightarrow> Inr (scanRows rows fmempty))"

definition len :: "(string, ColumnInfo) fmap \<Rightarrow> nat" where
  "len m = fcard (fmdom m)"

text \<open>
  What \<open>getTableOrderBy\<close> does with the scanned \<open>sorting_key\<close>: nothing for NULL or the
  empty string; otherwise \<open>strings.Trim\<close> with the cutset \<open>"()"\<close>, nothing if that leaves the
  empty string, else \<open>strings.Split\<close> on the comma and \<open>strings.TrimSpace\<close> of every piece.
\<close>

definition parseSortingKey :: "string option \<Rightarrow> string list" where
  "parseSortingKey sortingKey =
     (case sortingKey of
        None \<Rightarrow> []
      | Some str \<Rightarrow>
          if str = [] then []
          else (let orderBy = Trim str ''()''
                in if orderBy = [] then []
                   else map TrimSpace (Split orderBy (CHR '',''))))"

definition getTableOrderBy :: "database \<Rightarrow> string \<Rightarrow> string \<Rightarrow> string + string list" where
  "getTableOrderBy db database tableName =
     (case QueryRow_sorting_key db database tableName of
        ErrNoRows \<Rightarrow> Inl ''sql: no rows in result set''
      | RowError err \<Rightarrow> Inl err
      | Row sortingKey \<Rightarrow> Inr (parseSortingKey sortingKey))"

section \<open>Comparing the configuration with the live table\<close>

datatype column_error =
    ColumnCount nat nat
  | ColumnNotFound string
  | ColumnType string string string
  | ColumnComment string string string

definition expectedComment :: "ColumnModel \<Rightarrow> string" where
  "expectedComment expected =
     (if \<not> IsNull (col_Comment expected) \<and> \<not> IsUnknown (col_Comment expected)
      then ValueString (col_Comment expected) else [])"

text \<open>The loop of \<open>validateColumns\<close> over the expected columns; the first error ends it.\<close>

fun checkColumns :: "ColumnModel list \<Rightarrow> (string, ColumnInfo) fmap \<Rightarrow> column_error option" where
  "checkColumns [] actualCols = None"
| "checkColumns (expected # rest) actualCols =
     (case fmlookup actualCols (ValueString (col_Name expected)) of
        None \<Rightarrow> Some (ColumnNotFound (ValueString (col_Name expected)))
      | Some actual \<Rightarrow>
          if info_Type actual \<noteq> ValueString (col_Type expected)
          then Some (ColumnType (ValueString (col_Name expected))
                       (ValueString (col_Type expected)) (info_Type actual))
          else if info_Comment actual \<noteq> expectedComment expected
          then Some (ColumnComment (ValueString (col_Name expected))
                       (expectedComment expected) (info_Comment actual))
          else checkColumns rest actualCols)"

definition validateColumns ::
  "ColumnModel list \<Rightarrow> (string, ColumnInfo) fmap \<Rightarrow> column_error option" where
  "validateColumns expectedCols actualCols =
     (if length expectedCols \<noteq> len actualCols
      then Some (ColumnCount (length expectedCols) (len actualCols))
      else checkColumns expectedCols actualCols)"

datatype orderby_error =
    OrderByCount nat nat
  | OrderByColumn nat string string

text \<open>
  The loop of \<open>validateOrderBy\<close> from index \<open>i\<close> on. It runs only after the two lengths
  were found equal, so \<open>actual[i]\<close> is in range.
\<close>

fun checkOrderBy :: "nat \<Rightarrow> string list \<Rightarrow> string list \<Rightarrow> orderby_error option" where
  "checkOrderBy i [] actual = None"
| "checkOrderBy i (expectedCol # rest) actual =
     (if expectedCol \<noteq> actual ! i
      then Some (OrderByColumn (i + 1) expectedCol (actual ! i))
      else checkOrderBy (i + 1) rest actual)"

definition validateOrderBy :: "tfstring list \<Rightarrow> string list \<Rightarrow> orderby_error option" where
  "validateOrderBy expected actual =
     (let expectedStrs = map ValueString expected
      in if length expectedStrs \<noteq> length actual
         then Some (OrderByCount (length expectedStrs) (length actual))
         else checkOrderBy 0 expectedStrs actual)"

definition mergeTreeEngines :: "string list" where
  "mergeTreeEngines =
     [''MergeTree'', ''ReplacingMergeTree'', ''SummingMergeTree'',
      ''AggregatingMergeTree'', ''CollapsingMergeTree'', ''VersionedCollapsingMergeTree'',
      ''GraphiteMergeTree'']"

definition isMergeTreeFamily :: "string \<Rightarrow> bool" where
  "isMergeTreeFamily engine = list_ex (HasPrefix engine) mergeTreeEngines"

section \<open>Diagnostics and responses\<close>

text \<open>
  Every \<open>AddError\<close> of the resource is one constructor, carrying the values its message is
  formatted from; \<open>summary\<close> is the text of its first argument. \<open>FrameworkDiagnostic\<close> is a
  diagnostic that decoding the request (\<open>req.State.Get\<close>, \<open>req.Plan.Get\<close>) produced.
\<close>

datatype severity = SeverityError | SeverityWarning

datatype diagnostic =
    FrameworkDiagnostic severity string string
  | ErrorCreatingTable string string string
  | InvalidTableID string
  | ErrorCheckingTableExistence string string
  | TableEngineMismatch string string
  | ErrorReadingTableSchema string string
  | TableSchemaMismatch column_error
  | ErrorReadingTableOrderBy string string
  | TableOrderByMismatch orderby_error
  | UpdateNotImplemented
  | ErrorDroppingTable string string
  | InvalidImportIdentifier string
  | EmptyImportIdentifierPart
  | TableNotFound string string

fun summary :: "diagnostic \<Rightarrow> string" where
  "summary (FrameworkDiagnostic sev s d) = s"
| "summary (ErrorCreatingTable db t e) = ''Error creating table''"
| "summary (InvalidTableID i) = ''Invalid table ID''"
| "summary (ErrorCheckingTableExistence i e) = ''Error checking table existence''"
| "summary (TableEngineMismatch expected actual) = ''Table engine mismatch''"
| "summary (ErrorReadingTableSchema i e) = ''Error reading table schema''"
| "summary (TableSchemaMismatch e) = ''Table schema mismatch''"
| "summary (ErrorReadingTableOrderBy i e) = ''Error reading table ORDER BY''"
| "summary (TableOrderByMismatch e) = ''Table ORDER BY mismatch''"
| "summary UpdateNotImplemented = ''Update is not implemented''"
| "summary (ErrorDroppingTable i e) = ''Error dropping table''"
| "summary (InvalidImportIdentifier i) = ''Invalid import identifier''"
| "summary EmptyImportIdentifierPart = ''Invalid import identifier''"
| "summary (TableNotFound db t) = ''Table not found''"

fun isError :: "diagnostic \<Rightarrow> bool" where
  "isError (FrameworkDiagnostic sev s d) = (sev = SeverityError)"
| "isError d = True"

definition HasError :: "diagnostic list \<Rightarrow> bool" where
  "HasError ds = list_ex isError ds"

text \<open>
  What an operation did: the diagnostics of its response, what it did to the state of its
  response (nothing, \<open>RemoveResource\<close>, or \<open>Set\<close> of a model) and the statements it sent.
\<close>

datatype state_effect = StateUntouched | StateRemoved | StateSet TableResourceModel

record response =
  Diagnostics :: "diagnostic list"
  State :: state_effect
  calls :: "db_call list"

section \<open>The operations of the resource\<close>

text \<open>
  \<open>Create\<close>, \<open>Read\<close>, \<open>Update\<close> and \<open>Delete\<close> start by decoding the plan or the prior state
  into a \<open>TableResourceModel\<close>; \<open>ds\<close> are the diagnostics of that decoding and \<open>data\<close> the
  decoded model. Log lines are left out. The file of the resource holds two revisions
  one after the other; the operations below are those of the later one (from line 324
  on), and \<open>Update_first\<close> is the \<open>Update\<close> of the earlier one.
\<close>

definition Create :: "database \<Rightarrow> diagnostic list \<Rightarrow> TableResourceModel \<Rightarrow> response" where
  "Create db ds plan =
     (if HasError ds then \<lparr>Diagnostics = ds, State = StateUntouched, calls = []\<rparr>
      else
        (let data = (if IsNull (Database plan) \<or> IsUnknown (Database plan)
                     then plan\<lparr>Database := StringValue ''default''\<rparr> else plan);
             createSQL = generateCreateTableSQL data
         in case ExecContext db createSQL of
              Some err \<Rightarrow>
                \<lparr>Diagnostics = ds @ [ErrorCreatingTable (ValueString (Database data))
                                        (ValueString (Name data)) err],
                 State = StateUntouched, calls = [Exec createSQL]\<rparr>
            | None \<Rightarrow>
                \<lparr>Diagnostics = ds,
                 State = StateSet (data\<lparr>ID := StringValue
                           (ValueString (Database data) @ ''.'' @ ValueString (Name data))\<rparr>),
                 calls = [Exec createSQL]\<rparr>))"

definition Read :: "database \<Rightarrow> diagnostic list \<Rightarrow> TableResourceModel \<Rightarrow> response" where
  "Read db ds data =
     (if HasError ds then \<lparr>Diagnostics = ds, State = StateUntouched, calls = []\<rparr>
      else
        (let parts = Split (ValueString (ID data)) (CHR ''.'')
         in if length parts \<noteq> 2
            then \<lparr>Diagnostics = ds @ [InvalidTableID (ValueString (ID data))],
                  State = StateUntouched, calls = []\<rparr>
            else
              (let database = parts ! 0; tableName = parts ! 1
               in case QueryRow_engine db database tableName of
                    ErrNoRows \<Rightarrow>
                      \<lparr>Diagnostics = ds, State = StateRemoved,
                       calls = [QueryEngine database tableName]\<rparr>
                  | RowError err \<Rightarrow>
                      \<lparr>Diagnostics = ds @ [ErrorCheckingTableExistence (ValueString (ID data)) err],
                       State = StateUntouched, calls = [QueryEngine database tableName]\<rparr>
                  | Row actualEngine \<Rightarrow>
                      if actualEngine \<noteq> ValueString (Engine data)
                      then \<lparr>Diagnostics = ds @ [TableEngineMismatch (ValueString (Engine data))
                                                   actualEngine],
                            State = StateUntouched, calls = [QueryEngine database tableName]\<rparr>
                      else
                        (case getTableColumns db database tableName of
                           Inl err \<Rightarrow>
                             \<lparr>Diagnostics = ds @ [ErrorReadingTableSchema (ValueString (ID data)) err],
                              State = StateUntouched,
                              calls = [QueryEngine database tableName,
                                       QueryColumns database tableName]\<rparr>
                         | Inr actualColumns \<Rightarrow>
                             (case validateColumns (Columns data) actualColumns of
                                Some err \<Rightarrow>
                                  \<lparr>Diagnostics = ds @ [TableSchemaMismatch err],
                                   State = StateUntouched,
                                   calls = [QueryEngine database tableName,
                                            QueryColumns database tableName]\<rparr>
                              | None \<Rightarrow>
                                  if isMergeTreeFamily actualEngine
                                  then
                                    (case getTableOrderBy db database tableName of
                                       Inl err \<Rightarrow>
                                         \<lparr>Diagnostics = ds @ [ErrorReadingTableOrderBy
                                                                 (ValueString (ID data)) err],
                                          State = StateUntouched,
                                          calls = [QueryEngine database tableName,
                                                   QueryColumns database tableName,
                                                   QuerySortingKey database tableName]\<rparr>
                                     | Inr actualOrderBy \<Rightarrow>
                                         (case validateOrderBy (OrderBy data) actualOrderBy of
                                            Some err \<Rightarrow>
                                              \<lparr>Diagnostics = ds @ [TableOrderByMismatch err],
                                               State = StateUntouched,
                                               calls = [QueryEngine database tableName,
                                                        QueryColumns database tableName,
                                                        QuerySortingKey database tableName]\<rparr>
                                          | None \<Rightarrow>
                                              \<lparr>Diagnostics = ds, State = StateSet data,
                                               calls = [QueryEngine database tableName,
                                                        QueryColumns database tableName,
                                                        QuerySortingKey database tableName]\<rparr>))
                                  else \<lparr>Diagnostics = ds, State = StateSet data,
                                        calls = [QueryEngine database tableName,
                                                 QueryColumns database tableName]\<rparr>)))))"

definition Update :: "database \<Rightarrow> diagnostic list \<Rightarrow> TableResourceModel \<Rightarrow> response" where
  "Update db ds data =
     (if HasError ds then \<lparr>Diagnostics = ds, State = StateUntouched, calls = []\<rparr>
      else \<lparr>Diagnostics = ds @ [UpdateNotImplemented], State = StateUntouched, calls = []\<rparr>)"

text \<open>
  The \<open>Update\<close> of the earlier revision (lines 232 to 247): it prints what it would
  update and saves the plan into the state.
\<close>

definition Update_first :: "database \<Rightarrow> diagnostic list \<Rightarrow> TableResourceModel \<Rightarrow> response" where
  "Update_first db ds data =
     (if HasError ds then \<lparr>Diagnostics = ds, State = StateUntouched, calls = []\<rparr>
      else \<lparr>Diagnostics = ds, State = StateSet data, calls = []\<rparr>)"

definition Delete :: "database \<Rightarrow> diagnostic list \<Rightarrow> TableResourceModel \<Rightarrow> response" where
  "Delete db ds data =
     (if HasError ds then \<lparr>Diagnostics = ds, State = StateUntouched, calls = []\<rparr>
      else
        (let dropSQL = ''DROP TABLE IF EXISTS '' @ ValueString (Database data) @ ''.'' @
                       ValueString (Name data)
         in case ExecContext db dropSQL of
              Some err \<Rightarrow>
                \<lparr>Diagnostics = ds @ [ErrorDroppingTable (ValueString (ID data)) err],
                 State = StateUntouched, calls = [Exec dropSQL]\<rparr>
            | None \<Rightarrow> \<lparr>Diagnostics = ds, State = StateUntouched, calls = [Exec dropSQL]\<rparr>))"

text \<open>
  \<open>ImportState\<close> walks the Go map of the columns with \<open>range\<close>. Go leaves the order of
  that walk open, so the order the run time takes is a parameter: \<open>order\<close> lists the keys
  as \<open>range\<close> visits them. It is an order of the map when it lists every key once.
\<close>

definition rangeOrder :: "(string, ColumnInfo) fmap \<Rightarrow> string list \<Rightarrow> bool" where
  "rangeOrder m order = (distinct order \<and> set order = fset (fmdom m))"

definition rangeValues :: "(string, ColumnInfo) fmap \<Rightarrow> string list \<Rightarrow> ColumnInfo list" where
  "rangeValues m order = List.map_filter (fmlookup m) order"

definition toColumnModel :: "ColumnInfo \<Rightarrow> ColumnModel" where
  "toColumnModel col =
     \<lparr>col_Name = StringValue (info_Name col), col_Type = StringValue (info_Type col),
      col_Comment = (if info_Comment col \<noteq> [] then StringValue (info_Comment col)
                     else StringNull)\<rparr>"

definition ImportState :: "database \<Rightarrow> string list \<Rightarrow> string \<Rightarrow> response" where
  "ImportState db order reqID =
     (let parts = Split reqID (CHR ''.'')
      in if length parts \<noteq> 2
         then \<lparr>Diagnostics = [InvalidImportIdentifier reqID], State = StateUntouched, calls = []\<rparr>
         else
           (let database = parts ! 0; tableName = parts ! 1
            in if database = [] \<or> tableName = []
               then \<lparr>Diagnostics = [EmptyImportIdentifierPart], State = StateUntouched,
                     calls = []\<rparr>
               else
                 (case QueryRow_engine db database tableName of
                    ErrNoRows \<Rightarrow>
                      \<lparr>Diagnostics = [TableNotFound database tableName],
                       State = StateUntouched, calls = [QueryEngine database tableName]\<rparr>
                  | RowError err \<Rightarrow>
                      \<lparr>Diagnostics = [ErrorCheckingTableExistence (database @ ''.'' @ tableName) err],
                       State = StateUntouched, calls = [QueryEngine database tableName]\<rparr>
                  | Row engine \<Rightarrow>
                      (case getTableColumns db database tableName of
                         Inl err \<Rightarrow>
                           \<lparr>Diagnostics = [ErrorReadingTableSchema (database @ ''.'' @ tableName) err],
                            State = StateUntouched,
                            calls = [QueryEngine database tableName,
                                     QueryColumns database tableName]\<rparr>
                       | Inr columns \<Rightarrow>
                           (let columnModels = map toColumnModel (rangeValues columns order)
                            in if isMergeTreeFamily engine
                               then
                                 (case getTableOrderBy db database tableName of
                                    Inl err \<Rightarrow>
                                      \<lparr>Diagnostics = [ErrorReadingTableOrderBy
                                                        (database @ ''.'' @ tableName) err],
                                       State = StateUntouched,
                                       calls = [QueryEngine database tableName,
                                                QueryColumns database tableName,
                                                QuerySortingKey database tableName]\<rparr>
                                  | Inr orderByColumns \<Rightarrow>
                                      \<lparr>Diagnostics = [],
                                       State = StateSet
                                         \<lparr>ID = StringValue reqID, Name = StringValue tableName,
                                          Database = StringValue database,
                                          Engine = StringValue engine, Columns = columnModels,
                                          OrderBy = map StringValue orderByColumns\<rparr>,
                                       calls = [QueryEngine database tableName,
                                                QueryColumns database tableName,
                                                QuerySortingKey database tableName]\<rparr>)
                               else
                                 \<lparr>Diagnostics = [],
                                  State = StateSet
                                    \<lparr>ID = StringValue reqID, Name = StringValue tableName,
                                     Database = StringValue database,
                                     Engine = StringValue engine, Columns = columnModels,
                                     OrderBy = []\<rparr>,
                                  calls = [QueryEngine database tableName,
                                           QueryColumns database tableName]\<rparr>)))))"

section \<open>The comparison of Read on its own\<close>

text \<open>
  The three values \<open>Read\<close> has read from the live table when all its queries succeed.
\<close>

record ActualTable =
  actualEngine :: string
  actualColumns :: "(string, ColumnInfo) fmap"
  actualOrderBy :: "string list"

text \<open>
  The checks of \<open>Read\<close> in its order: the engine, \<open>validateColumns\<close>, and
  \<open>validateOrderBy\<close> when the live engine is of the MergeTree family. The result is the
  diagnostic \<open>Read\<close> adds, \<open>None\<close> when it adds none (lemma \<open>Read_compare\<close> below).
\<close>

definition compare :: "TableResourceModel \<Rightarrow> ActualTable \<Rightarrow> diagnostic option" where
  "compare data actual =
     (if actualEngine actual \<noteq> ValueString (Engine data)
      then Some (TableEngineMismatch (ValueString (Engine data)) (actualEngine actual))
      else
        (case validateColumns (Columns data) (actualColumns actual) of
           Some err \<Rightarrow> Some (TableSchemaMismatch err)
         | None \<Rightarrow>
             if isMergeTreeFamily (actualEngine actual)
             then (case validateOrderBy (OrderBy data) (actualOrderBy actual) of
                     Some err \<Rightarrow> Some (TableOrderByMismatch err)
                   | None \<Rightarrow> None)
             else None))"

definition columnNames :: "ColumnModel list \<Rightarrow> string list" where
  "columnNames cols = map (\<lambda>c. ValueString (col_Name c)) cols"

text \<open>
  The live table that mirrors a configuration: the same engine string, one row of
  \<open>system.columns\<close> for every configured column, in the configured order, with its name, its
  type and its comment (the empty comment for a column configured without one), read by
  the loop of \<open>getTableColumns\<close>, and the same sorting key columns.
\<close>

definition mirrorRow :: "ColumnModel \<Rightarrow> column_row" where
  "mirrorRow c = (ValueString (col_Name c), ValueString (col_Type c), Some (expectedComment c))"

definition actualFrom :: "TableResourceModel \<Rightarrow> ActualTable" where
  "actualFrom d =
     \<lparr>actualEngine = ValueString (Engine d),
      actualColumns = scanRows (map mirrorRow (Columns d)) fmempty,
      actualOrderBy = map ValueString (OrderBy d)\<rparr>"

section \<open>The sorting key as the specification words it\<close>

text \<open>
  The specification's parse of the sorting key, to compare \<open>parseSortingKey\<close> with:
  an absent or empty key gives the empty sequence; otherwise one enclosing pair of
  parentheses is removed if the key starts with \<open>(\<close> and ends with \<open>)\<close>, the rest is split
  on commas and every piece is trimmed.
\<close>

definition isParen :: "char \<Rightarrow> bool" where
  "isParen c = (c = CHR ''('' \<or> c = CHR '')'')"

definition stripEnclosingPair :: "string \<Rightarrow> string" where
  "stripEnclosingPair s =
     (if 2 \<le> length s \<and> hd s = CHR ''('' \<and> last s = CHR '')'' then butlast (tl s) else s)"

definition spec_parseSortingKey :: "string option \<Rightarrow> string list" where
  "spec_parseSortingKey sortingKey =
     (case sortingKey of
        None \<Rightarrow> []
      | Some str \<Rightarrow>
          if str = [] then []
          else map TrimSpace (Split (stripEnclosingPair str) (CHR '','')))"

section \<open>Example tables\<close>

text \<open>
  The table \<open>default.events\<close> of the specification's example, with its engine, the comment
  of its column \<open>ts\<close> and its sorting key columns left open.
\<close>

definition events :: "string \<Rightarrow> tfstring \<Rightarrow> string list \<Rightarrow> TableResourceModel" where
  "events engine tsComment orderBy =
     \<lparr>ID = StringValue ''default.events'', Name = StringValue ''events'',
      Database = StringValue ''default'', Engine = StringValue engine,
      Columns = [\<lparr>col_Name = StringValue ''id'', col_Type = StringValue ''UInt64'',
                  col_Comment = StringValue ''pk''\<rparr>,
                 \<lparr>col_Name = StringValue ''ts'', col_Type = StringValue ''DateTime'',
                  col_Comment = tsComment\<rparr>],
      OrderBy = map StringValue orderBy\<rparr>"

text \<open>A database that holds one table and nothing else.\<close>

definition serving ::
  "string \<Rightarrow> string \<Rightarrow> string \<Rightarrow> column_row list \<Rightarrow> string option \<Rightarrow> database" where
  "serving database tableName engine rows sortingKey =
     \<lparr>ExecContext = (\<lambda>sql. None),
      QueryRow_engine =
        (\<lambda>d t. if d = database \<and> t = tableName then Row engine else ErrNoRows),
      Query_columns =
        (\<lambda>d t. if d = database \<and> t = tableName then Inr rows else Inr []),
      QueryRow_sorting_key =
        (\<lambda>d t. if d = database \<and> t = tableName then Row sortingKey else ErrNoRows)\<rparr>"

definition eventsRows :: "column_row list" where
  "eventsRows = [(''id'', ''UInt64'', Some ''pk''), (''ts'', ''DateTime'', Some [])]"

definition eventsDb :: database where
  "eventsDb = serving ''default'' ''events'' ''MergeTree'' eventsRows (Some ''id'')"

text \<open>The same table with the sorting key \<open>toDate(ts)\<close>, as ClickHouse serialises it.\<close>

definition eventsByDayDb :: database where
  "eventsByDayDb =
     serving ''default'' ''events'' ''MergeTree'' eventsRows (Some ''toDate(ts)'')"

text \<open>The column names of the model an operation has set, if it has set one.\<close>

definition setColumnNames :: "response \<Rightarrow> string list option" where
  "setColumnNames r =
     (case State r of StateSet m \<Rightarrow> Some (columnNames (Columns m)) | _ \<Rightarrow> None)"

section \<open>Lemmas on reading and comparing columns\<close>

lemma scanRows_fmdom:
  "fmdom (scanRows rows m) = fset_of_list (map fst rows) |\<union>| fmdom m"
  by (induction rows m rule: scanRows.induct) auto

lemma scanRows_lookup_other:
  "k \<notin> fst ` set rows \<Longrightarrow> fmlookup (scanRows rows m) k = fmlookup m k"
  by (induction rows m rule: scanRows.induct) auto

lemma scanRows_lookup_row:
  "distinct (map fst rows) \<Longrightarrow> (name, colType, comment) \<in> set rows \<Longrightarrow>
   fmlookup (scanRows rows m) name =
     Some \<lparr>info_Name = name, info_Type = colType, info_Comment = NullString_String comment\<rparr>"
proof (induction rows m rule: scanRows.induct)
  case (1 columns)
  then show ?case by simp
next
  case (2 n t c rows columns)
  show ?case
  proof (cases "(name, colType, comment) = (n, t, c)")
    case True
    with "2.prems" have "name \<notin> fst ` set rows" by auto
    with True show ?thesis by (simp add: scanRows_lookup_other)
  next
    case False
    with "2.prems" have "(name, colType, comment) \<in> set rows" and "distinct (map fst rows)"
      by auto
    with "2.IH" show ?thesis by simp
  qed
qed

lemma len_scanRows:
  "distinct (map fst rows) \<Longrightarrow> len (scanRows rows fmempty) = length rows"
proof -
  assume d: "distinct (map fst rows)"
  have "len (scanRows rows fmempty) = card (set (map fst rows))"
    by (simp add: len_def scanRows_fmdom fcard.rep_eq fset_of_list.rep_eq)
  also have "\<dots> = length (map fst rows)" using d by (rule distinct_card)
  finally show ?thesis by simp
qed

lemma map_fst_mirrorRow: "map fst (map mirrorRow cols) = columnNames cols"
  by (simp add: columnNames_def mirrorRow_def)

lemma checkColumns_mirror:
  assumes "distinct (map fst rows)"
    and "mirrorRow ` set cols \<subseteq> set rows"
  shows "checkColumns cols (scanRows rows fmempty) = None"
  using assms(2)
proof (induction cols)
  case Nil
  then show ?case by simp
next
  case (Cons c cols)
  then have "(ValueString (col_Name c), ValueString (col_Type c), Some (expectedComment c)) \<in> set rows"
    by (auto simp: mirrorRow_def)
  from scanRows_lookup_row [OF assms(1) this] Cons show ?case by simp
qed

lemma validateColumns_mirror:
  assumes "distinct (columnNames cols)"
  shows "validateColumns cols (scanRows (map mirrorRow cols) fmempty) = None"
proof -
  have d: "distinct (map fst (map mirrorRow cols))"
    using assms by (simp only: map_fst_mirrorRow)
  have "len (scanRows (map mirrorRow cols) fmempty) = length cols"
    using len_scanRows [OF d] by simp
  moreover have "checkColumns cols (scanRows (map mirrorRow cols) fmempty) = None"
    by (rule checkColumns_mirror [OF d]) simp
  ultimately show ?thesis by (simp add: validateColumns_def)
qed

lemma checkOrderBy_None:
  "checkOrderBy i es actual = None \<longleftrightarrow> (\<forall>j<length es. es ! j = actual ! (i + j))"
proof (induction es arbitrary: i)
  case Nil
  then show ?case by simp
next
  case (Cons e es)
  show ?case by (simp add: Cons.IH All_less_Suc2)
qed

lemma checkOrderBy_Some:
  "checkOrderBy i es actual = Some err \<Longrightarrow>
   \<exists>k e a. err = OrderByColumn k e a \<and> e \<noteq> a \<and> 0 < k"
  by (induction es arbitrary: i) (auto split: if_splits)

lemma validateOrderBy_None:
  "validateOrderBy expected actual = None \<longleftrightarrow> actual = map ValueString expected"
  by (auto simp: validateOrderBy_def Let_def checkOrderBy_None list_eq_iff_nth_eq)


lemma validateColumns_None_length:
  "validateColumns expectedCols actualCols = None \<Longrightarrow> length expectedCols = len actualCols"
  by (simp add: validateColumns_def split: if_splits)


lemma validateOrderBy_perm:
  assumes "mset key = mset (map ValueString expected)" and "key \<noteq> map ValueString expected"
  shows "\<exists>k e a. validateOrderBy expected key = Some (OrderByColumn k e a) \<and> e \<noteq> a"
proof -
  have len: "length key = length (map ValueString expected)"
    using assms(1) by (rule mset_eq_length)
  have "validateOrderBy expected key \<noteq> None"
    using assms(2) by (simp add: validateOrderBy_None)
  then obtain err where err: "validateOrderBy expected key = Some err" by auto
  then have "checkOrderBy 0 (map ValueString expected) key = Some err"
    using len by (simp add: validateOrderBy_def Let_def)
  from checkOrderBy_Some [OF this] err show ?thesis by auto
qed


lemma isMergeTreeFamily_MergeTree: "isMergeTreeFamily ''MergeTree''"
  by (simp add: isMergeTreeFamily_def mergeTreeEngines_def HasPrefix_def)

lemma isMergeTreeFamily_Log: "\<not> isMergeTreeFamily ''Log''"
  by (simp add: isMergeTreeFamily_def mergeTreeEngines_def HasPrefix_def)


lemma big_dom: "fmdom (scanRows (eventsRows @ [(''extra'', ''String'', None)]) fmempty) = {|''extra'', ''ts'', ''id''|}"
  by (simp add: eventsRows_def scanRows_fmdom) 

lemma small_dom: "fmdom (scanRows [(''id'', ''UInt64'', None)] fmempty) = {|''id''|}"
  by (simp add: scanRows_fmdom)

lemma events_names: "columnNames (Columns (events e c k)) = [''id'', ''ts'']"
  by (simp add: events_def columnNames_def)

lemma events_length: "length (Columns (events e c k)) = 2"
  by (simp add: events_def)

lemma big_len: "len (scanRows (eventsRows @ [(''extra'', ''String'', None)]) fmempty) = 3"
  by (simp add: len_def big_dom fcard_finsert_if)

lemma small_len: "len (scanRows [(''id'', ''UInt64'', None)] fmempty) = 1"
  by (simp add: len_def small_dom fcard_finsert_if)


lemma small_subset_events: "fset (fmdom (scanRows [(''id'', ''UInt64'', None)] fmempty)) \<subset>
     set (columnNames (Columns (events ''Log'' StringNull [])))"
  unfolding small_dom events_names by (simp add: psubset_eq)

lemma events_subset_big: "distinct (columnNames (Columns (events ''Log'' StringNull []))) \<and>
   set (columnNames (Columns (events ''Log'' StringNull []))) \<subset>
     fset (fmdom (scanRows (eventsRows @ [(''extra'', ''String'', None)]) fmempty))"
proof -
  have a: "''extra'' \<notin> {''id'', ''ts''}" by simp
  have b: "''extra'' \<in> {''extra'', ''ts'', ''id''}" by simp
  have c: "{''id'', ''ts''} \<subseteq> {''extra'', ''ts'', ''id''}" by simp
  from a b have "{''id'', ''ts''} \<noteq> {''extra'', ''ts'', ''id''}" by metis
  with c show ?thesis unfolding big_dom events_names by (simp add: psubset_eq)
qed


section \<open>A mirrored table matches\<close>

text \<open>
  Claim C1. Every configuration whose column names are pairwise distinct (the data
  model's rule for the columns of a table) matches the live table that mirrors it: the
  engine check, \<open>validateColumns\<close> and, for an engine of the MergeTree family,
  \<open>validateOrderBy\<close> add no diagnostic.
\<close>

theorem compare_mirror:
  assumes "distinct (columnNames (Columns d))"
  shows "compare d (actualFrom d) = None"
proof -
  have "validateOrderBy (OrderBy d) (map ValueString (OrderBy d)) = None"
    by (simp add: validateOrderBy_None)
  with validateColumns_mirror [OF assms] show ?thesis
    by (simp add: compare_def actualFrom_def)
qed

theorem compare_mirror_witness:
  "distinct (columnNames (Columns (events ''MergeTree'' StringNull [''id'']))) \<and>
   compare (events ''MergeTree'' StringNull [''id''])
     (actualFrom (events ''MergeTree'' StringNull [''id''])) = None"
proof -
  have h: "distinct (columnNames (Columns (events ''MergeTree'' StringNull [''id''])))"
    by (simp add: events_def columnNames_def)
  from h compare_mirror [OF h] show ?thesis by simp
qed

section \<open>More or fewer columns never match\<close>

text \<open>
  Claim C4. \<open>validateColumns\<close> accepts only when the live table has as many columns as
  the configuration. When the live column names are a proper subset of the configured
  ones it reports the column count; so it does when the configured names, pairwise
  distinct as the data model requires, are a proper subset of the live ones.
\<close>

theorem validateColumns_subset_superset:
  "(validateColumns expectedCols actualCols = None \<longrightarrow>
      length expectedCols = len actualCols) \<and>
   (fset (fmdom actualCols) \<subset> set (columnNames expectedCols) \<longrightarrow>
      validateColumns expectedCols actualCols =
        Some (ColumnCount (length expectedCols) (len actualCols))) \<and>
   (distinct (columnNames expectedCols) \<and>
    set (columnNames expectedCols) \<subset> fset (fmdom actualCols) \<longrightarrow>
      validateColumns expectedCols actualCols =
        Some (ColumnCount (length expectedCols) (len actualCols)))"
proof (intro conjI impI)
  assume "validateColumns expectedCols actualCols = None"
  then show "length expectedCols = len actualCols"
    by (rule validateColumns_None_length)
next
  assume sub: "fset (fmdom actualCols) \<subset> set (columnNames expectedCols)"
  have "card (fset (fmdom actualCols)) < card (set (columnNames expectedCols))"
    using sub by (intro psubset_card_mono) simp_all
  also have "\<dots> \<le> length (columnNames expectedCols)" by (rule card_length)
  finally have "len actualCols < length expectedCols"
    by (simp add: len_def fcard.rep_eq columnNames_def)
  then show "validateColumns expectedCols actualCols =
        Some (ColumnCount (length expectedCols) (len actualCols))"
    by (simp add: validateColumns_def)
next
  assume a: "distinct (columnNames expectedCols) \<and>
    set (columnNames expectedCols) \<subset> fset (fmdom actualCols)"
  then have "card (set (columnNames expectedCols)) < card (fset (fmdom actualCols))"
    by (intro psubset_card_mono) simp_all
  moreover have "card (set (columnNames expectedCols)) = length (columnNames expectedCols)"
    using a by (simp add: distinct_card)
  ultimately have "length expectedCols < len actualCols"
    by (simp add: len_def fcard.rep_eq columnNames_def)
  then show "validateColumns expectedCols actualCols =
        Some (ColumnCount (length expectedCols) (len actualCols))"
    by (simp add: validateColumns_def)
qed


theorem validateColumns_subset_superset_witness:
  "fset (fmdom (scanRows [(''id'', ''UInt64'', None)] fmempty)) \<subset>
     set (columnNames (Columns (events ''Log'' StringNull []))) \<and>
   validateColumns (Columns (events ''Log'' StringNull []))
     (scanRows [(''id'', ''UInt64'', None)] fmempty) = Some (ColumnCount 2 1) \<and>
   distinct (columnNames (Columns (events ''Log'' StringNull []))) \<and>
   set (columnNames (Columns (events ''Log'' StringNull []))) \<subset>
     fset (fmdom (scanRows (eventsRows @ [(''extra'', ''String'', None)]) fmempty)) \<and>
   validateColumns (Columns (events ''Log'' StringNull []))
     (scanRows (eventsRows @ [(''extra'', ''String'', None)]) fmempty) = Some (ColumnCount 2 3)"
proof -
  let ?cols = "Columns (events ''Log'' StringNull [])"
  let ?small = "scanRows [(''id'', ''UInt64'', None)] fmempty"
  let ?big = "scanRows (eventsRows @ [(''extra'', ''String'', None)]) fmempty"
  have r1: "validateColumns ?cols ?small = Some (ColumnCount 2 1)"
    using validateColumns_subset_superset [of ?cols ?small] small_subset_events
    by (simp only: small_len events_length)
  have r2: "validateColumns ?cols ?big = Some (ColumnCount 2 3)"
    using validateColumns_subset_superset [of ?cols ?big] events_subset_big
    by (simp only: big_len events_length)
  from small_subset_events events_subset_big r1 r2 show ?thesis by (intro conjI) (simp_all only: simp_thms)
qed

section \<open>The sorting key is compared position by position\<close>

text \<open>
  Claim C6. Take a configuration with pairwise distinct column names, its mirrored live
  table, and for the live sorting key a permutation of the configured one that is not
  the configured sequence itself. For an engine of the MergeTree family \<open>Read\<close>'s
  comparison reports the first position where the two differ; for any other engine it
  reports nothing, the sorting key being left unread.
\<close>

theorem orderKey_permutation:
  assumes "distinct (columnNames (Columns d))"
    and "mset key = mset (map ValueString (OrderBy d))"
    and "key \<noteq> map ValueString (OrderBy d)"
  shows "(isMergeTreeFamily (ValueString (Engine d)) \<longrightarrow>
            (\<exists>k e a. compare d ((actualFrom d)\<lparr>actualOrderBy := key\<rparr>) =
                       Some (TableOrderByMismatch (OrderByColumn k e a)) \<and> e \<noteq> a)) \<and>
         (\<not> isMergeTreeFamily (ValueString (Engine d)) \<longrightarrow>
            compare d ((actualFrom d)\<lparr>actualOrderBy := key\<rparr>) = None)"
proof -
  have cols: "validateColumns (Columns d) (scanRows (map mirrorRow (Columns d)) fmempty) = None"
    by (rule validateColumns_mirror [OF assms(1)])
  obtain k e a where "validateOrderBy (OrderBy d) key = Some (OrderByColumn k e a)" and "e \<noteq> a"
    using validateOrderBy_perm [OF assms(2,3)] by auto
  with cols show ?thesis
    by (auto simp: compare_def actualFrom_def)
qed

theorem orderKey_permutation_witness:
  "(\<exists>k e a. compare (events ''MergeTree'' StringNull [''id'', ''ts''])
              ((actualFrom (events ''MergeTree'' StringNull [''id'', ''ts'']))
                 \<lparr>actualOrderBy := [''ts'', ''id'']\<rparr>) =
            Some (TableOrderByMismatch (OrderByColumn k e a)) \<and> e \<noteq> a) \<and>
   compare (events ''Log'' StringNull [''id'', ''ts''])
     ((actualFrom (events ''Log'' StringNull [''id'', ''ts'']))
        \<lparr>actualOrderBy := [''ts'', ''id'']\<rparr>) = None"
proof -
  have h1: "distinct (columnNames (Columns (events e StringNull [''id'', ''ts''])))" for e
    by (simp add: events_def columnNames_def)
  have h2: "mset [''ts'', ''id''] = mset (map ValueString (OrderBy (events e StringNull [''id'', ''ts''])))" for e
    by (simp add: events_def)
  have h3: "[''ts'', ''id''] \<noteq> map ValueString (OrderBy (events e StringNull [''id'', ''ts'']))" for e
    by (simp add: events_def)
  have e1: "ValueString (Engine (events e c k)) = e" for e c k
    by (simp add: events_def)
  from orderKey_permutation [OF h1 h2 h3, of "''MergeTree''"]
       orderKey_permutation [OF h1 h2 h3, of "''Log''"]
  show ?thesis
    by (simp only: e1 isMergeTreeFamily_MergeTree isMergeTreeFamily_Log simp_thms)
qed

section \<open>The CREATE TABLE statement of the example\<close>

text \<open>
  Claim C3, as stated: for the example table whose column \<open>ts\<close> has the comment \<open>""\<close>,
  the statement has no COMMENT clause for \<open>ts\<close>. It fails: a comment that is the empty
  string is neither null nor unknown, so \<open>generateCreateTableSQL\<close> writes the clause.
\<close>

theorem generateCreateTableSQL_events_empty_comment:
  "generateCreateTableSQL (events ''MergeTree'' (StringValue []) [''id'']) \<noteq>
     ''CREATE TABLE default.events ('' @ [newline] @
     ''    id UInt64 COMMENT '' @ [quote] @ ''pk'' @ [quote] @ '','' @ [newline] @
     ''    ts DateTime'' @ [newline] @
     '') ENGINE = MergeTree'' @ [newline] @
     ''ORDER BY (id)''"
  by (simp add: generateCreateTableSQL_def events_def newline_def quote_def)

text \<open>
  Claim C3, amended. For the example table whose column \<open>ts\<close> has no comment (null),
  whatever its ID, \<open>generateCreateTableSQL\<close> returns exactly the statement of the
  specification; with the empty string as comment the line of \<open>ts\<close> ends with
  \<open>COMMENT ''\<close>.
\<close>

theorem generateCreateTableSQL_events:
  "generateCreateTableSQL ((events ''MergeTree'' StringNull [''id''])\<lparr>ID := i\<rparr>) =
     ''CREATE TABLE default.events ('' @ [newline] @
     ''    id UInt64 COMMENT '' @ [quote] @ ''pk'' @ [quote] @ '','' @ [newline] @
     ''    ts DateTime'' @ [newline] @
     '') ENGINE = MergeTree'' @ [newline] @
     ''ORDER BY (id)'' \<and>
   generateCreateTableSQL ((events ''MergeTree'' (StringValue []) [''id''])\<lparr>ID := i\<rparr>) =
     ''CREATE TABLE default.events ('' @ [newline] @
     ''    id UInt64 COMMENT '' @ [quote] @ ''pk'' @ [quote] @ '','' @ [newline] @
     ''    ts DateTime COMMENT '' @ [quote, quote] @ [newline] @
     '') ENGINE = MergeTree'' @ [newline] @
     ''ORDER BY (id)''"
  by (simp add: generateCreateTableSQL_def events_def)

section \<open>An absent table\<close>

text \<open>
  Claim C8. For an identity of two non-empty parts whose table the engine query does not
  find, \<open>Read\<close> removes the resource from the state, adds no diagnostic and has sent this
  one query; \<open>ImportState\<close> of the same identity fails with "Table not found".
\<close>

theorem absent_table:
  assumes "Split ident (CHR ''.'') = [database, tableName]"
    and "database \<noteq> []" and "tableName \<noteq> []"
    and "QueryRow_engine db database tableName = ErrNoRows"
    and "\<not> HasError ds" and "ValueString (ID data) = ident"
  shows "Read db ds data =
           \<lparr>Diagnostics = ds, State = StateRemoved, calls = [QueryEngine database tableName]\<rparr> \<and>
         ImportState db order ident =
           \<lparr>Diagnostics = [TableNotFound database tableName], State = StateUntouched,
            calls = [QueryEngine database tableName]\<rparr>"
  using assms by (simp add: Read_def ImportState_def)

lemma Split_default_gone: "Split ''default.gone'' (CHR ''.'') = [''default'', ''gone'']"
  by simp

theorem absent_table_witness:
  "Read eventsDb [] ((events ''MergeTree'' StringNull [''id''])\<lparr>ID := StringValue ''default.gone''\<rparr>) =
     \<lparr>Diagnostics = [], State = StateRemoved, calls = [QueryEngine ''default'' ''gone'']\<rparr> \<and>
   ImportState eventsDb [] ''default.gone'' =
     \<lparr>Diagnostics = [TableNotFound ''default'' ''gone''], State = StateUntouched,
      calls = [QueryEngine ''default'' ''gone'']\<rparr>"
proof -
  have a: "QueryRow_engine eventsDb ''default'' ''gone'' = ErrNoRows"
    by (simp add: eventsDb_def serving_def)
  have b: "\<not> HasError []" by (simp add: HasError_def)
  have c: "ValueString (ID ((events ''MergeTree'' StringNull [''id''])\<lparr>ID := StringValue ''default.gone''\<rparr>)) = ''default.gone''"
    by simp
  have d: "''default'' \<noteq> []" "''gone'' \<noteq> []" by simp_all
  from absent_table [OF Split_default_gone d a b c, of "[]"] show ?thesis .
qed

section \<open>Update\<close>

text \<open>
  Claim C9, as stated: \<open>Update\<close> always fails. It fails on the \<open>Update\<close> of the earlier
  revision (lines 232 to 247), which by its own comment only logs what it would update:
  it adds no error and saves the changed plan into the state.
\<close>

theorem Update_first_accepts:
  "\<not> HasError (Diagnostics (Update_first eventsDb [] (events ''Log'' StringNull []))) \<and>
   State (Update_first eventsDb [] (events ''Log'' StringNull [])) =
     StateSet (events ''Log'' StringNull [])"
  by (simp add: Update_first_def HasError_def)

text \<open>
  Claim C9, amended. The \<open>Update\<close> of the later revision (lines 606 to 617) always ends
  with an error diagnostic, sends no statement to the database and leaves the state
  alone; whenever the plan was decoded without error the diagnostic it adds is
  "Update is not implemented". The \<open>Update\<close> of the earlier revision sends no statement
  to the database either, but for a plan decoded without error it adds no diagnostic and
  saves the plan into the state.
\<close>

theorem Update_two_revisions:
  "HasError (Diagnostics (Update db ds data)) \<and>
   calls (Update db ds data) = [] \<and>
   State (Update db ds data) = StateUntouched \<and>
   (\<not> HasError ds \<longrightarrow> Diagnostics (Update db ds data) = ds @ [UpdateNotImplemented]) \<and>
   calls (Update_first db ds data) = [] \<and>
   (\<not> HasError ds \<longrightarrow>
      Diagnostics (Update_first db ds data) = ds \<and> State (Update_first db ds data) = StateSet data)"
  by (simp add: Update_def Update_first_def HasError_def)

theorem Update_two_revisions_witness:
  "\<not> HasError [] \<and>
   HasError (Diagnostics (Update eventsDb [] (events ''Log'' StringNull []))) \<and>
   calls (Update eventsDb [] (events ''Log'' StringNull [])) = [] \<and>
   State (Update eventsDb [] (events ''Log'' StringNull [])) = StateUntouched \<and>
   Diagnostics (Update eventsDb [] (events ''Log'' StringNull [])) = [UpdateNotImplemented] \<and>
   calls (Update_first eventsDb [] (events ''Log'' StringNull [])) = [] \<and>
   Diagnostics (Update_first eventsDb [] (events ''Log'' StringNull [])) = [] \<and>
   State (Update_first eventsDb [] (events ''Log'' StringNull [])) =
     StateSet (events ''Log'' StringNull [])"
proof -
  have h: "\<not> HasError []" by (simp add: HasError_def)
  from h Update_two_revisions [of eventsDb "[]" "events ''Log'' StringNull []"]
  show ?thesis by (simp add: HasError_def)
qed

section \<open>Read and its comparison\<close>

text \<open>
  When its queries succeed, \<open>Read\<close> adds the diagnostic of \<open>compare\<close> and nothing else,
  and sets the state exactly when \<open>compare\<close> finds no difference.
\<close>

lemma Read_compare:
  assumes "\<not> HasError ds"
    and "Split (ValueString (ID data)) (CHR ''.'') = [database, tableName]"
    and "QueryRow_engine db database tableName = Row engine"
    and "getTableColumns db database tableName = Inr cols"
    and "isMergeTreeFamily engine \<Longrightarrow> getTableOrderBy db database tableName = Inr key"
  shows "Diagnostics (Read db ds data) =
           ds @ (case compare data \<lparr>actualEngine = engine, actualColumns = cols,
                                      actualOrderBy = key\<rparr> of
                   None \<Rightarrow> [] | Some d \<Rightarrow> [d])"
    and "State (Read db ds data) =
           (case compare data \<lparr>actualEngine = engine, actualColumns = cols,
                                 actualOrderBy = key\<rparr> of
              None \<Rightarrow> StateSet data | Some d \<Rightarrow> StateUntouched)"
  using assms by (auto simp: Read_def compare_def split: option.splits)

lemma Read_State_cases:
  "State (Read db ds data) = StateUntouched \<or> State (Read db ds data) = StateRemoved \<or>
   State (Read db ds data) = StateSet data"
  by (simp add: Read_def Let_def split: row_result.splits sum.splits option.splits)


lemma Split_default_events: "Split ''default.events'' (CHR ''.'') = [''default'', ''events'']"
  by simp

lemma parseSortingKey_id: "parseSortingKey (Some ''id'') = [''id'']"
  by code_simp

lemma eventsDb_engine: "QueryRow_engine eventsDb ''default'' ''events'' = Row ''MergeTree''"
  by (simp add: eventsDb_def serving_def)

lemma eventsDb_columns:
  "getTableColumns eventsDb ''default'' ''events'' = Inr (scanRows eventsRows fmempty)"
  by (simp add: eventsDb_def serving_def getTableColumns_def)

lemma eventsDb_orderBy: "getTableOrderBy eventsDb ''default'' ''events'' = Inr [''id'']"
  by (simp add: eventsDb_def serving_def getTableOrderBy_def parseSortingKey_id)

lemma events_validateColumns:
  "validateColumns (Columns (events e StringNull k)) (scanRows eventsRows fmempty) = None"
  by (simp add: validateColumns_def events_def eventsRows_def len_def fcard_finsert_if
      expectedComment_def)

lemma events_validateOrderBy:
  "validateOrderBy (OrderBy (events e c [''id''])) [''id''] = None"
  by (simp add: validateOrderBy_def events_def)


text \<open>
  Claim C10. On a pass of \<open>Read\<close> where the table is there and the engine, the columns
  and (for the MergeTree family) the sorting key match, the state written back is the
  prior state as it was decoded and no diagnostic is added; and whatever the database
  answers, a model that \<open>Read\<close> writes to the state is the prior state, none of its
  fields taken from the database.
\<close>

theorem Read_writes_back_prior_state:
  "(\<not> HasError ds \<and>
    Split (ValueString (ID data)) (CHR ''.'') = [database, tableName] \<and>
    QueryRow_engine db database tableName = Row engine \<and>
    engine = ValueString (Engine data) \<and>
    getTableColumns db database tableName = Inr cols \<and>
    validateColumns (Columns data) cols = None \<and>
    (\<not> isMergeTreeFamily engine \<or>
       (getTableOrderBy db database tableName = Inr key \<and>
        validateOrderBy (OrderBy data) key = None))
    \<longrightarrow> State (Read db ds data) = StateSet data \<and> Diagnostics (Read db ds data) = ds) \<and>
   (\<forall>written. State (Read db ds data) = StateSet written \<longrightarrow> written = data)"
proof (intro conjI impI allI)
  fix written
  assume "State (Read db ds data) = StateSet written"
  with Read_State_cases [of db ds data] show "written = data" by auto
next
  assume a: "\<not> HasError ds \<and>
    Split (ValueString (ID data)) (CHR ''.'') = [database, tableName] \<and>
    QueryRow_engine db database tableName = Row engine \<and>
    engine = ValueString (Engine data) \<and>
    getTableColumns db database tableName = Inr cols \<and>
    validateColumns (Columns data) cols = None \<and>
    (\<not> isMergeTreeFamily engine \<or>
       (getTableOrderBy db database tableName = Inr key \<and>
        validateOrderBy (OrderBy data) key = None))"
  then show "State (Read db ds data) = StateSet data" by (auto simp: Read_def)
  from a show "Diagnostics (Read db ds data) = ds" by (auto simp: Read_def)
qed

theorem Read_writes_back_prior_state_witness:
  "State (Read eventsDb [] (events ''MergeTree'' StringNull [''id''])) =
     StateSet (events ''MergeTree'' StringNull [''id'']) \<and>
   Diagnostics (Read eventsDb [] (events ''MergeTree'' StringNull [''id''])) = []"
proof -
  let ?d = "events ''MergeTree'' StringNull [''id'']"
  have a: "\<not> HasError []" by (simp add: HasError_def)
  have b: "Split (ValueString (ID ?d)) (CHR ''.'') = [''default'', ''events'']"
    by (simp add: events_def)
  have c: "''MergeTree'' = ValueString (Engine ?d)" by (simp add: events_def)
  from Read_writes_back_prior_state [of "[]" ?d "''default''" "''events''" eventsDb
      "''MergeTree''" "scanRows eventsRows fmempty" "[''id'']"]
    a b c eventsDb_engine eventsDb_columns eventsDb_orderBy events_validateColumns
    events_validateOrderBy
  show ?thesis by blast
qed

section \<open>The order of the imported columns\<close>

lemma eventsRows_dom: "fmdom (scanRows eventsRows fmempty) = {|''ts'', ''id''|}"
  by (simp add: eventsRows_def scanRows_fmdom)

lemma rangeOrder_ts_id: "rangeOrder (scanRows eventsRows fmempty) [''ts'', ''id'']"
  by (simp add: rangeOrder_def eventsRows_dom)

lemma rangeValues_ts_id:
  "map info_Name (rangeValues (scanRows eventsRows fmempty) [''ts'', ''id'']) = [''ts'', ''id'']"
  by (simp add: rangeValues_def eventsRows_def List.map_filter_simps)

text \<open>
  Claim C2 says that \<open>ImportState\<close> returns the columns in the order of their position in
  the database. The query asks for that order, but \<open>getTableColumns\<close> stores the rows in a
  Go map and \<open>ImportState\<close> walks the map with \<open>range\<close>, whose order Go leaves open. For
  the table \<open>default.events\<close> with the columns \<open>id\<close>, \<open>ts\<close> in this order of position, a
  walk that visits \<open>ts\<close> first is an order of the map, and the imported columns are then
  \<open>ts\<close>, \<open>id\<close>.
\<close>

theorem ImportState_map_order:
  "Query_columns eventsDb ''default'' ''events'' =
     Inr [(''id'', ''UInt64'', Some ''pk''), (''ts'', ''DateTime'', Some [])] \<and>
   rangeOrder (scanRows eventsRows fmempty) [''ts'', ''id''] \<and>
   setColumnNames (ImportState eventsDb [''ts'', ''id''] ''default.events'') =
     Some [''ts'', ''id'']"
proof -
  have a: "Query_columns eventsDb ''default'' ''events'' =
     Inr [(''id'', ''UInt64'', Some ''pk''), (''ts'', ''DateTime'', Some [])]"
    by (simp add: eventsDb_def serving_def eventsRows_def)
  have s: "Split ''default.events'' (CHR ''.'') = [''default'', ''events'']" by simp
  have e: "QueryRow_engine eventsDb ''default'' ''events'' = Row ''MergeTree''"
    by (simp add: eventsDb_def serving_def)
  have c: "getTableColumns eventsDb ''default'' ''events'' = Inr (scanRows eventsRows fmempty)"
    by (simp add: eventsDb_def serving_def getTableColumns_def)
  have m: "isMergeTreeFamily ''MergeTree''" by (rule isMergeTreeFamily_MergeTree)
  have o: "getTableOrderBy eventsDb ''default'' ''events'' = Inr [''id'']"
    by (rule eventsDb_orderBy)
  have n: "columnNames (map toColumnModel xs) = map info_Name xs" for xs
    by (simp add: columnNames_def toColumnModel_def)
  have "setColumnNames (ImportState eventsDb [''ts'', ''id''] ''default.events'') =
     Some [''ts'', ''id'']"
    by (simp add: ImportState_def Let_def s e c m o setColumnNames_def n rangeValues_ts_id
        del: Split.simps)
  with a rangeOrder_ts_id show ?thesis by simp
qed

section \<open>An identity with an empty part\<close>

text \<open>
  Claim C7 says that \<open>Read\<close> rejects an identity with an empty part before any query.
  \<open>Read\<close> only counts the parts: for the identity \<open>.table\<close> it queries the engine of the
  table \<open>table\<close> in the database with the empty name and, finding none, removes the
  resource without a diagnostic. \<open>ImportState\<close> does reject the same identity, and
  before any query.
\<close>

theorem Read_empty_database_part:
  "Read eventsDb [] ((events ''MergeTree'' StringNull [''id''])\<lparr>ID := StringValue ''.table''\<rparr>) =
     \<lparr>Diagnostics = [], State = StateRemoved, calls = [QueryEngine [] ''table'']\<rparr> \<and>
   ImportState eventsDb [] ''.table'' =
     \<lparr>Diagnostics = [EmptyImportIdentifierPart], State = StateUntouched, calls = []\<rparr>"
  by (simp add: Read_def ImportState_def HasError_def eventsDb_def serving_def)

section \<open>Parsing the sorting key\<close>

lemma dropWhile_keeps: "xs \<noteq> [] \<Longrightarrow> \<not> P (hd xs) \<Longrightarrow> dropWhile P xs = xs"
  by (cases xs) simp_all

lemma dropWhile_all: "list_all P xs \<Longrightarrow> dropWhile P xs = []"
  by (induction xs) simp_all

lemma paren_cutset: "(c \<in> set ''()'') = isParen c"
  by (auto simp: isParen_def)

lemma Trim_paren: "Trim s ''()'' = rev (dropWhile isParen (rev (dropWhile isParen s)))"
  by (simp only: Trim_def paren_cutset)

lemma Trim_plain:
  assumes "s \<noteq> []" and "\<not> isParen (hd s)" and "\<not> isParen (last s)"
  shows "Trim s ''()'' = s"
proof -
  have "dropWhile isParen s = s" using assms(1,2) by (rule dropWhile_keeps)
  moreover have "dropWhile isParen (rev s) = rev s"
    using assms(1,3) by (intro dropWhile_keeps) (simp_all add: hd_rev)
  ultimately show ?thesis by (simp add: Trim_paren)
qed

lemma Trim_enclosed:
  assumes "t \<noteq> []" and "\<not> isParen (hd t)" and "\<not> isParen (last t)"
  shows "Trim (CHR ''('' # t @ [CHR '')'']) ''()'' = t"
proof -
  have "dropWhile isParen (CHR ''('' # t @ [CHR '')'']) = t @ [CHR '')'']"
    using assms(1,2) by (cases t) (simp_all add: isParen_def)
  moreover have "dropWhile isParen (rev (t @ [CHR '')''])) = rev t"
    using dropWhile_keeps [of "rev t" isParen] assms(1,3)
    by (simp add: isParen_def hd_rev)
  ultimately show ?thesis by (simp add: Trim_paren)
qed

lemma Trim_stripEnclosingPair:
  assumes "stripEnclosingPair s \<noteq> []"
    and "\<not> isParen (hd (stripEnclosingPair s))"
    and "\<not> isParen (last (stripEnclosingPair s))"
  shows "Trim s ''()'' = stripEnclosingPair s"
proof (cases "2 \<le> length s \<and> hd s = CHR ''('' \<and> last s = CHR '')''")
  case True
  then have "s \<noteq> []" and "tl s \<noteq> []" by (cases s; auto)+
  then have "s = CHR ''('' # butlast (tl s) @ [CHR '')'']"
    using True append_butlast_last_id [of "tl s"] by (cases s) (auto simp: last_tl)
  moreover have "stripEnclosingPair s = butlast (tl s)"
    using True unfolding stripEnclosingPair_def by (rule if_P)
  ultimately show ?thesis
    using Trim_enclosed [of "butlast (tl s)"] assms by simp
next
  case False
  then have "stripEnclosingPair s = s" unfolding stripEnclosingPair_def by (rule if_not_P)
  with assms show ?thesis by (simp add: Trim_plain)
qed

lemma Trim_only_parens: "list_all isParen s \<Longrightarrow> Trim s ''()'' = []"
  by (simp add: Trim_paren dropWhile_all)

lemma parseSortingKey_example: "parseSortingKey (Some ''(id, ts)'') = [''id'', ''ts'']"
  by code_simp

lemma strip_example: "stripEnclosingPair ''(id, ts)'' = ''id, ts''"
  by (simp add: stripEnclosingPair_def)

lemma eventsByDayDb_orderBy:
  "getTableOrderBy eventsByDayDb ''default'' ''events'' = Inr [''toDate(ts'']"
proof -
  have "parseSortingKey (Some ''toDate(ts)'') = [''toDate(ts'']" by code_simp
  then show ?thesis by (simp add: eventsByDayDb_def serving_def getTableOrderBy_def)
qed

text \<open>
  Claim C5 says that the parse removes one enclosing pair of parentheses if there is one,
  splits on commas and trims every piece. \<open>getTableOrderBy\<close> calls \<open>strings.Trim\<close> with the
  cutset \<open>"()"\<close>, which removes every parenthesis at either end, enclosing or not: the
  key \<open>toDate(ts)\<close> has no enclosing pair and the parse of the specification keeps it,
  but the code returns \<open>toDate(ts\<close>. \<open>Read\<close> of a table configured, and created, with
  \<open>order_by = ["toDate(ts)"]\<close> then reports an ORDER BY mismatch at the first column.
\<close>

theorem parseSortingKey_unbalanced:
  "parseSortingKey (Some ''toDate(ts)'') = [''toDate(ts''] \<and>
   spec_parseSortingKey (Some ''toDate(ts)'') = [''toDate(ts)''] \<and>
   Read eventsByDayDb [] (events ''MergeTree'' StringNull [''toDate(ts)'']) =
     \<lparr>Diagnostics = [TableOrderByMismatch (OrderByColumn 1 ''toDate(ts)'' ''toDate(ts'')],
      State = StateUntouched,
      calls = [QueryEngine ''default'' ''events'', QueryColumns ''default'' ''events'',
               QuerySortingKey ''default'' ''events'']\<rparr>"
proof -
  let ?d = "events ''MergeTree'' StringNull [''toDate(ts)'']"
  have a: "parseSortingKey (Some ''toDate(ts)'') = [''toDate(ts'']" by code_simp
  have b: "spec_parseSortingKey (Some ''toDate(ts)'') = [''toDate(ts)'']" by code_simp
  have i: "Split (ValueString (ID ?d)) (CHR ''.'') = [''default'', ''events'']"
    by (simp add: events_def)
  have e: "QueryRow_engine eventsByDayDb ''default'' ''events'' = Row ''MergeTree''"
    by (simp add: eventsByDayDb_def serving_def)
  have g: "ValueString (Engine ?d) = ''MergeTree''" by (simp add: events_def)
  have c: "getTableColumns eventsByDayDb ''default'' ''events'' =
             Inr (scanRows eventsRows fmempty)"
    by (simp add: eventsByDayDb_def serving_def getTableColumns_def)
  have v: "validateColumns (Columns ?d) (scanRows eventsRows fmempty) = None"
    by (rule events_validateColumns)
  have o: "validateOrderBy (OrderBy ?d) [''toDate(ts''] =
             Some (OrderByColumn 1 ''toDate(ts)'' ''toDate(ts'')"
    by (simp add: validateOrderBy_def events_def)
  have r: "Read eventsByDayDb [] ?d =
     \<lparr>Diagnostics = [TableOrderByMismatch (OrderByColumn 1 ''toDate(ts)'' ''toDate(ts'')],
      State = StateUntouched,
      calls = [QueryEngine ''default'' ''events'', QueryColumns ''default'' ''events'',
               QuerySortingKey ''default'' ''events'']\<rparr>"
    by (simp add: Read_def Let_def HasError_def i e g c v o eventsByDayDb_orderBy
        isMergeTreeFamily_MergeTree del: Split.simps)
  from a b r show ?thesis by (intro conjI)
qed

text \<open>
  Where the two parses agree: an absent (NULL) or empty sorting key, and a key made of
  parentheses only, give the empty sequence; a row that was read is always parsed.
  Whenever what is left after removing one enclosing pair of parentheses is not empty and
  neither starts nor ends with a parenthesis, \<open>parseSortingKey\<close> gives what the parse of
  the specification gives. \<open>(id, ts)\<close> gives \<open>id\<close>, \<open>ts\<close>.
\<close>

lemma parseSortingKey_agrees:
  "parseSortingKey None = [] \<and>
   parseSortingKey (Some []) = [] \<and>
   (list_all isParen s \<longrightarrow> parseSortingKey (Some s) = []) \<and>
   (QueryRow_sorting_key db database tableName = Row sortingKey \<longrightarrow>
      getTableOrderBy db database tableName = Inr (parseSortingKey sortingKey)) \<and>
   (stripEnclosingPair s \<noteq> [] \<and> \<not> isParen (hd (stripEnclosingPair s)) \<and>
    \<not> isParen (last (stripEnclosingPair s)) \<longrightarrow>
      parseSortingKey (Some s) = spec_parseSortingKey (Some s)) \<and>
   parseSortingKey (Some ''(id, ts)'') = [''id'', ''ts'']"
proof (intro conjI impI)
  show "parseSortingKey None = []" by (simp add: parseSortingKey_def)
  show "parseSortingKey (Some []) = []" by (simp add: parseSortingKey_def)
  show "parseSortingKey (Some ''(id, ts)'') = [''id'', ''ts'']"
    by (rule parseSortingKey_example)
next
  assume "list_all isParen s"
  then show "parseSortingKey (Some s) = []"
    by (simp add: parseSortingKey_def Trim_only_parens)
next
  assume "QueryRow_sorting_key db database tableName = Row sortingKey"
  then show "getTableOrderBy db database tableName = Inr (parseSortingKey sortingKey)"
    by (simp add: getTableOrderBy_def)
next
  assume a: "stripEnclosingPair s \<noteq> [] \<and> \<not> isParen (hd (stripEnclosingPair s)) \<and>
    \<not> isParen (last (stripEnclosingPair s))"
  then have t: "Trim s ''()'' = stripEnclosingPair s"
    by (intro Trim_stripEnclosingPair) simp_all
  have "s \<noteq> []" using a by (auto simp: stripEnclosingPair_def)
  with a t show "parseSortingKey (Some s) = spec_parseSortingKey (Some s)"
    by (simp add: parseSortingKey_def spec_parseSortingKey_def)
qed

lemma parseSortingKey_agrees_example:
  "parseSortingKey (Some ''(id, ts)'') = spec_parseSortingKey (Some ''(id, ts)'') \<and>
   parseSortingKey (Some ''()'') = [] \<and>
   getTableOrderBy eventsDb ''default'' ''events'' = Inr (parseSortingKey (Some ''id''))"
proof -
  have a: "stripEnclosingPair ''(id, ts)'' \<noteq> [] \<and>
           \<not> isParen (hd (stripEnclosingPair ''(id, ts)'')) \<and>
           \<not> isParen (last (stripEnclosingPair ''(id, ts)''))"
    by (simp add: strip_example isParen_def)
  have b: "list_all isParen ''()''" by (simp add: isParen_def)
  have c: "QueryRow_sorting_key eventsDb ''default'' ''events'' = Row (Some ''id'')"
    by (simp add: eventsDb_def serving_def)
  from parseSortingKey_agrees [of "''(id, ts)''" eventsDb "''default''" "''events''" "Some ''id''"] a c
  have 1: "parseSortingKey (Some ''(id, ts)'') = spec_parseSortingKey (Some ''(id, ts)'')"
    and 3: "getTableOrderBy eventsDb ''default'' ''events'' = Inr (parseSortingKey (Some ''id''))"
    by blast+
  from parseSortingKey_agrees [of "''()''" eventsDb "''default''" "''events''" "Some ''id''"] b
  have 2: "parseSortingKey (Some ''()'') = []" by blast
  from 1 2 3 show ?thesis by blast
qed

section \<open>Identities that are rejected\<close>

text \<open>
  What does hold of the identities: \<open>Read\<close> rejects an identity that does not split at the
  dots into two parts, and \<open>ImportState\<close> rejects one that does not or has an empty part,
  both before any query.
\<close>

lemma Read_rejects_part_count:
  assumes "\<not> HasError ds"
    and "length (Split (ValueString (ID data)) (CHR ''.'')) \<noteq> 2"
  shows "Read db ds data =
           \<lparr>Diagnostics = ds @ [InvalidTableID (ValueString (ID data))],
            State = StateUntouched, calls = []\<rparr>"
  using assms by (simp add: Read_def)

lemma Read_rejects_part_count_witness:
  "Read eventsDb [] ((events ''MergeTree'' StringNull [''id''])\<lparr>ID := StringValue ''a.b.c''\<rparr>) =
     \<lparr>Diagnostics = [InvalidTableID ''a.b.c''], State = StateUntouched, calls = []\<rparr>"
proof -
  let ?d = "(events ''MergeTree'' StringNull [''id''])\<lparr>ID := StringValue ''a.b.c''\<rparr>"
  have a: "\<not> HasError []" by (simp add: HasError_def)
  have b: "length (Split (ValueString (ID ?d)) (CHR ''.'')) \<noteq> 2" by simp
  from Read_rejects_part_count [OF a b, of eventsDb] show ?thesis by simp
qed

lemma ImportState_rejects_malformed:
  assumes "length (Split reqID (CHR ''.'')) \<noteq> 2 \<or>
           Split reqID (CHR ''.'') ! 0 = [] \<or> Split reqID (CHR ''.'') ! 1 = []"
  shows "calls (ImportState db order reqID) = [] \<and>
         State (ImportState db order reqID) = StateUntouched \<and>
         (Diagnostics (ImportState db order reqID) = [InvalidImportIdentifier reqID] \<or>
          Diagnostics (ImportState db order reqID) = [EmptyImportIdentifierPart])"
  using assms by (auto simp: ImportState_def Let_def)

lemma ImportState_rejects_malformed_witness:
  "calls (ImportState eventsDb [] ''db.'') = [] \<and>
   State (ImportState eventsDb [] ''db.'') = StateUntouched \<and>
   Diagnostics (ImportState eventsDb [] ''db.'') = [EmptyImportIdentifierPart]"
proof -
  have a: "length (Split ''db.'' (CHR ''.'')) \<noteq> 2 \<or>
           Split ''db.'' (CHR ''.'') ! 0 = [] \<or> Split ''db.'' (CHR ''.'') ! 1 = []"
    by simp
  have b: "Diagnostics (ImportState eventsDb [] ''db.'') \<noteq> [InvalidImportIdentifier ''db.'']"
    by (simp add: ImportState_def)
  from ImportState_rejects_malformed [OF a, of eventsDb "[]"] b show ?thesis by blast
qed

end
